theory Spec2Isabelle
  imports Complex_Main
begin

section \<open>Residue-class registry and biomass potential (Google\_Earth\_Engine\_CORRECTED.js)\<close>

text \<open>
  Earth Engine numbers are modelled as exact reals: every claim below is about the
  arithmetic chain, not about rounding.  An entry of the \<open>crops\<close> object keeps its
  numeric fields; the display-only strings (name, color, source) are left out.  The
  source field \<open>class\<close> is called \<open>class_code\<close> here.  A field that an entry
  does not have (\<open>undefined\<close> in JavaScript) is \<open>None\<close>.
\<close>

record crop =
  class_code :: nat
  area_sp_ha :: real
  livestock_density_heads_ha :: "real option"
  manure_production_kg_head_day :: "real option"
  annual_manure_ton_ha :: "real option"
  productivity_ton_ha :: "real option"
  biogas_factor_nm3_ton :: real
  biogas_m3_ha_year :: real
  methane_content :: real
  seasonal_factor :: real

definition pasture :: crop where
  "pasture = \<lparr> class_code = 15, area_sp_ha = 3842653,
     livestock_density_heads_ha = Some 2.5,
     manure_production_kg_head_day = Some 10,
     annual_manure_ton_ha = Some (2.5 * 10 * 365 / 1000),
     productivity_ton_ha = None,
     biogas_factor_nm3_ton = 200, biogas_m3_ha_year = 1825,
     methane_content = 0.60, seasonal_factor = 1.0 \<rparr>"

definition sugarcane :: crop where
  "sugarcane = \<lparr> class_code = 20, area_sp_ha = 5812461,
     livestock_density_heads_ha = None, manure_production_kg_head_day = None,
     annual_manure_ton_ha = None,
     productivity_ton_ha = Some 70.23,
     biogas_factor_nm3_ton = 94, biogas_m3_ha_year = 6602,
     methane_content = 0.55, seasonal_factor = 0.75 \<rparr>"

definition soy :: crop where
  "soy = \<lparr> class_code = 39, area_sp_ha = 1508984,
     livestock_density_heads_ha = None, manure_production_kg_head_day = None,
     annual_manure_ton_ha = None,
     productivity_ton_ha = Some 2.84,
     biogas_factor_nm3_ton = 215, biogas_m3_ha_year = 611,
     methane_content = 0.50, seasonal_factor = 0.4 \<rparr>"

definition corn :: crop where
  "corn = \<lparr> class_code = 39, area_sp_ha = 275159,
     livestock_density_heads_ha = None, manure_production_kg_head_day = None,
     annual_manure_ton_ha = None,
     productivity_ton_ha = Some 7.85,
     biogas_factor_nm3_ton = 225, biogas_m3_ha_year = 1766,
     methane_content = 0.52, seasonal_factor = 0.5 \<rparr>"

definition rice :: crop where
  "rice = \<lparr> class_code = 40, area_sp_ha = 31667,
     livestock_density_heads_ha = None, manure_production_kg_head_day = None,
     annual_manure_ton_ha = None,
     productivity_ton_ha = Some 7.11,
     biogas_factor_nm3_ton = 220, biogas_m3_ha_year = 1564,
     methane_content = 0.55, seasonal_factor = 0.8 \<rparr>"

definition coffee :: crop where
  "coffee = \<lparr> class_code = 46, area_sp_ha = 316067,
     livestock_density_heads_ha = None, manure_production_kg_head_day = None,
     annual_manure_ton_ha = None,
     productivity_ton_ha = Some 10.43,
     biogas_factor_nm3_ton = 310, biogas_m3_ha_year = 3233,
     methane_content = 0.62, seasonal_factor = 0.4 \<rparr>"

definition citrus :: crop where
  "citrus = \<lparr> class_code = 47, area_sp_ha = 112826,
     livestock_density_heads_ha = None, manure_production_kg_head_day = None,
     annual_manure_ton_ha = None,
     productivity_ton_ha = Some 99.00,
     biogas_factor_nm3_ton = 20.90, biogas_m3_ha_year = 2069,
     methane_content = 0.58, seasonal_factor = 0.6 \<rparr>"

text \<open>The \<open>crops\<close> object, in the key order that \<open>Object.keys\<close> enumerates.\<close>

definition crops :: "(string \<times> crop) list" where
  "crops = [(''pasture'', pasture), (''sugarcane'', sugarcane), (''soy'', soy),
            (''corn'', corn), (''rice'', rice), (''coffee'', coffee),
            (''citrus'', citrus)]"

text \<open>
  \<open>calculateBiomassInBuffer_CORRECTED(polygon, buffered, bufferSuffix)\<close>.  The raster
  reduction (pixel area of one MapBiomas class inside the buffer, divided by 10000) is
  the extraction service's work: it enters as \<open>areaOf\<close>, hectares per land-use class
  code.  The function's three mutable locals are the state of the loop.  Multiplying
  by a coefficient the entry does not have makes the Earth Engine client raise
  (a required argument is missing); that is the only error.
\<close>

datatype ee_error = Required_argument_missing

record biomass_state =
  biomassResults :: "string \<rightharpoonup> real"
  totalBiomassM3 :: real
  totalMethaneM3 :: real

definition forEach_callback ::
  "(nat \<Rightarrow> real) \<Rightarrow> string \<Rightarrow> string \<Rightarrow> crop \<Rightarrow> biomass_state \<Rightarrow> ee_error + biomass_state" where
  "forEach_callback areaOf bufferSuffix cropKey crop st =
    (let areaHa = areaOf (class_code crop) in
     case (if cropKey = ''pasture'' then
             (case (livestock_density_heads_ha crop, annual_manure_ton_ha crop) of
                (Some density, Some manure) \<Rightarrow>
                  (let livestockHeads = areaHa * density;
                       annualManureTon = areaHa * manure
                   in Inr (annualManureTon * biogas_factor_nm3_ton crop,
                        (biomassResults st)
                          (cropKey @ ''_livestock_heads'' @ bufferSuffix \<mapsto> livestockHeads,
                           cropKey @ ''_manure_ton'' @ bufferSuffix \<mapsto> annualManureTon)))
              | _ \<Rightarrow> Inl Required_argument_missing)
           else
             (case productivity_ton_ha crop of
                Some productivity \<Rightarrow>
                  (let annualProduction = areaHa * productivity
                   in Inr (annualProduction * biogas_factor_nm3_ton crop,
                        (biomassResults st)
                          (cropKey @ ''_production_ton'' @ bufferSuffix \<mapsto> annualProduction)))
              | None \<Rightarrow> Inl Required_argument_missing))
     of Inl e \<Rightarrow> Inl e
      | Inr (biogas_potential_m3, results) \<Rightarrow>
          (let seasonal_potential = biogas_potential_m3 * seasonal_factor crop;
               methane_potential = seasonal_potential * methane_content crop
           in Inr \<lparr> biomassResults = results
                      (cropKey @ ''_ha'' @ bufferSuffix \<mapsto> areaHa,
                       cropKey @ ''_biogas_m3'' @ bufferSuffix \<mapsto> biogas_potential_m3,
                       cropKey @ ''_seasonal_m3'' @ bufferSuffix \<mapsto> seasonal_potential,
                       cropKey @ ''_methane_m3'' @ bufferSuffix \<mapsto> methane_potential),
                    totalBiomassM3 = totalBiomassM3 st + seasonal_potential,
                    totalMethaneM3 = totalMethaneM3 st + methane_potential \<rparr>))"

fun forEach_crops ::
  "(nat \<Rightarrow> real) \<Rightarrow> string \<Rightarrow> (string \<times> crop) list \<Rightarrow> biomass_state \<Rightarrow> ee_error + biomass_state" where
  "forEach_crops areaOf bufferSuffix [] st = Inr st"
| "forEach_crops areaOf bufferSuffix ((cropKey, crop) # rest) st =
     (case forEach_callback areaOf bufferSuffix cropKey crop st of
        Inl e \<Rightarrow> Inl e
      | Inr st' \<Rightarrow> forEach_crops areaOf bufferSuffix rest st')"

text \<open>The global \<open>crops\<close> that the function reads is its first argument here.\<close>

definition calculateBiomassInBuffer_CORRECTED ::
  "(string \<times> crop) list \<Rightarrow> (nat \<Rightarrow> real) \<Rightarrow> string \<Rightarrow> ee_error + (string \<rightharpoonup> real)" where
  "calculateBiomassInBuffer_CORRECTED registry areaOf bufferSuffix =
     (case forEach_crops areaOf bufferSuffix registry
             \<lparr> biomassResults = Map.empty, totalBiomassM3 = 0, totalMethaneM3 = 0 \<rparr> of
        Inl e \<Rightarrow> Inl e
      | Inr st \<Rightarrow> Inr ((biomassResults st)
          (''total_biomass_potential'' @ bufferSuffix \<mapsto> totalBiomassM3 st,
           ''total_methane_potential'' @ bufferSuffix \<mapsto> totalMethaneM3 st,
           ''biomass_score'' @ bufferSuffix \<mapsto> totalMethaneM3 st / 1000)))"

text \<open>
  The export step maps the function over every property of a chunk: each unit is scored
  from its own area table alone.  \<open>result_get\<close> reads one exported property
  (nothing when the run raised).
\<close>

definition result_get :: "ee_error + (string \<rightharpoonup> real) \<Rightarrow> string \<Rightarrow> real option" where
  "result_get r key = (case r of Inl e \<Rightarrow> None | Inr res \<Rightarrow> res key)"

definition chunk_biomass_scores :: "(nat \<Rightarrow> real) list \<Rightarrow> string \<Rightarrow> real option list" where
  "chunk_biomass_scores units bufferSuffix =
     map (\<lambda>areaOf. result_get (calculateBiomassInBuffer_CORRECTED crops areaOf bufferSuffix)
                       (''biomass_score'' @ bufferSuffix)) units"

text \<open>
  The coefficient the callback multiplies the area by: manure tonnage per hectare for
  the key \<open>pasture\<close>, crop productivity for every other key.  \<open>class_methane\<close> is
  the product area \<times> productivity \<times> biogas factor \<times> seasonal factor \<times> methane
  fraction of one registry entry.
\<close>

definition yield_ton_ha :: "string \<Rightarrow> crop \<Rightarrow> real option" where
  "yield_ton_ha cropKey crop =
     (if cropKey = ''pasture'' then annual_manure_ton_ha crop else productivity_ton_ha crop)"

definition class_methane :: "(nat \<Rightarrow> real) \<Rightarrow> string \<times> crop \<Rightarrow> real" where
  "class_methane areaOf kc =
     (case yield_ton_ha (fst kc) (snd kc) of
        None \<Rightarrow> 0
      | Some p \<Rightarrow> areaOf (class_code (snd kc)) * p * biogas_factor_nm3_ton (snd kc)
                    * seasonal_factor (snd kc) * methane_content (snd kc))"

text \<open>Two sample units: 100 ha and 50 ha of sugarcane (class 20), nothing else.\<close>

definition cane_unit :: "nat \<Rightarrow> real" where
  "cane_unit c = (if c = 20 then 100 else 0)"

definition half_cane_unit :: "nat \<Rightarrow> real" where
  "half_cane_unit c = (if c = 20 then 50 else 0)"


section \<open>Infrastructure distances (GEE\_Data\_Extraction\_Only.js)\<close>

text \<open>
  The keys of the extraction script's \<open>infrastructure\<close> object (its entries hold only
  an asset and a display name).  What Earth Engine answers for one layer is the
  parameter \<open>query\<close>: the client call raised, no feature lies within 50 km of the
  centroid, or the nearest feature is so many metres away.
\<close>

definition infrastructure_extraction :: "string list" where
  "infrastructure_extraction =
     [''subestacoes'', ''linhas_transmissao'', ''rodovias_federais'', ''rodovias_estaduais'',
      ''gasodutos'', ''gasoduto_distribuicao'', ''aerodromos'']"

datatype infra_query = Query_raised | No_infra_nearby | Nearest_metres real

definition recorded_km :: "infra_query \<Rightarrow> real" where
  "recorded_km q =
     (case q of
        Nearest_metres minDistance \<Rightarrow> minDistance / 1000
      | No_infra_nearby \<Rightarrow> 999999 / 1000
      | Query_raised \<Rightarrow> - 1)"

fun forEach_infra :: "(string \<Rightarrow> infra_query) \<Rightarrow> string list \<Rightarrow> (string \<rightharpoonup> real) \<Rightarrow> (string \<rightharpoonup> real)" where
  "forEach_infra query [] distances = distances"
| "forEach_infra query (infraKey # rest) distances =
     forEach_infra query rest
       (distances(''dist_'' @ infraKey @ ''_km'' \<mapsto> recorded_km (query infraKey)))"

definition calculateInfrastructureDistances :: "string list \<Rightarrow> (string \<Rightarrow> infra_query) \<Rightarrow> (string \<rightharpoonup> real)" where
  "calculateInfrastructureDistances infrastructure_keys query =
     forEach_infra query infrastructure_keys Map.empty"


section \<open>Weighted registry and placeholders (Google\_Earth\_Engine\_Suffering.js)\<close>

text \<open>The \<open>infrastructure\<close> object of the master script: key and \<open>weight\<close>.\<close>

definition infrastructure :: "(string \<times> real) list" where
  "infrastructure =
     [(''subestacoes'', 0.20), (''linhas_transmissao'', 0.15), (''rodovias_federais'', 0.25),
      (''rodovias_estaduais'', 0.20), (''outros_trechos'', 0.10), (''gasodutos'', 0.05),
      (''gasoduto_distribuicao'', 0.08), (''aerodromos'', 0.05)]"

text \<open>The \<open>restrictions\<close> object: key and \<open>restriction_level\<close>; no entry has an asset.\<close>

definition restrictions :: "(string \<times> real) list" where
  "restrictions =
     [(''ucs_protecao_integral'', 10), (''ucs_uso_sustentavel'', 7), (''terras_indigenas'', 10),
      (''quilombolas'', 8), (''assentamentos'', 5), (''perimetros_urbanos'', 9),
      (''exclusao_aeroportuaria'', 10)]"

text \<open>
  A feature is its property dictionary; \<open>polygon.set(d)\<close> overrides it with \<open>d\<close>.
  \<open>calculateRestrictionScores\<close> has its loop over \<open>restrictions\<close> commented out and
  writes the constant 0; \<open>calculateMCDAScores\<close> combines three scores that are the
  constant 0 with hard-coded weights.
\<close>

datatype property = Num real | Str string

type_synonym feature = "string \<rightharpoonup> property"

definition calculateRestrictionScores :: "feature list \<Rightarrow> feature list" where
  "calculateRestrictionScores polygons =
     map (\<lambda>polygon. polygon ++ [''total_restriction_score'' \<mapsto> Num 0]) polygons"

definition calculateMCDAScores :: "feature \<Rightarrow> feature" where
  "calculateMCDAScores feature =
     (let weights_biomass_potential = 0.35;
          weights_infrastructure = 0.49;
          weights_restrictions = 0.16;
          biomass_score = 0;
          infrastructure_score = 0;
          restriction_score = 0;
          final_mcda_score = (biomass_score * weights_biomass_potential) +
                             (infrastructure_score * weights_infrastructure) +
                             (restriction_score * weights_restrictions)
      in feature ++ [''biomass_score'' \<mapsto> Num biomass_score,
                     ''infrastructure_score'' \<mapsto> Num infrastructure_score,
                     ''restriction_score'' \<mapsto> Num restriction_score,
                     ''mcda_final_score'' \<mapsto> Num final_mcda_score])"


section \<open>Distance penalty and completeness tables (methodology document)\<close>

text \<open>
  \<open>calculate_distance_score(distance_km, max_distance=50)\<close>.  The cutoff below which
  the score is maximal is the literal 1 km.  The division is reached only with
  \<open>1 < distance_km < max_distance\<close>, so it never divides by zero.
\<close>

definition calculate_distance_score :: "real \<Rightarrow> real \<Rightarrow> real" where
  "calculate_distance_score distance_km max_distance =
     (if distance_km \<le> 1 then 100
      else if distance_km \<ge> max_distance then 0
      else max 0 (100 - (distance_km / max_distance) * 100))"

text \<open>The required fields of \<open>data_completeness_framework\<close>, per pillar.\<close>

definition biomass_required_fields :: "string list" where
  "biomass_required_fields =
     [''agricultural_area_by_crop'', ''livestock_populations'',
      ''industrial_production_data'', ''urban_population_density'']"

definition infrastructure_required_fields :: "string list" where
  "infrastructure_required_fields =
     [''distance_to_substations'', ''road_network_access'',
      ''transmission_line_proximity'', ''gas_pipeline_access'']"

definition restriction_required_fields :: "string list" where
  "restriction_required_fields =
     [''conservation_units_buffer'', ''indigenous_territories_buffer'',
      ''urban_area_restrictions'', ''environmental_constraints'']"


section \<open>Engine components that the sources do not contain\<close>

text \<open>
  Modelled from the spec: the population-relative normalisation of section 4.1, which no
  source file implements.  The unit's total is scaled against the largest total of the
  population scored in the same run, with a floor at 0.
\<close>

definition minmax_biomass_score :: "real list \<Rightarrow> real \<Rightarrow> real" where
  "minmax_biomass_score population_totals unit_total =
     max 0 (100 * unit_total / Max (set population_totals))"

text \<open>
  Modelled from the spec: the per-category distance rule of section 4.2 with both decay
  parameters, to be compared with \<open>calculate_distance_score\<close> above.
\<close>

definition distance_score_spec :: "real \<Rightarrow> real \<Rightarrow> real \<Rightarrow> real" where
  "distance_score_spec min_threshold max_distance distance_km =
     (if distance_km \<le> min_threshold then 100
      else if distance_km \<ge> max_distance then 0
      else 100 * (1 - distance_km / max_distance))"

text \<open>
  Modelled from the spec: the InfrastructureScorer of section 4.2, missing from the
  sources.  A category without a measurement scores 0 at its full weight and is listed
  as missing; the weighted sum is clamped to [0, 100].
\<close>

record infra_category =
  cat_weight :: real
  cat_min_threshold :: real
  cat_max_distance :: real

definition category_score :: "infra_category \<Rightarrow> real option \<Rightarrow> real" where
  "category_score c d =
     (case d of
        None \<Rightarrow> 0
      | Some distance_km \<Rightarrow>
          distance_score_spec (cat_min_threshold c) (cat_max_distance c) distance_km)"

definition weighted_term :: "(string \<rightharpoonup> real) \<Rightarrow> string \<times> infra_category \<Rightarrow> real" where
  "weighted_term distances kc = cat_weight (snd kc) * category_score (snd kc) (distances (fst kc))"

definition infrastructure_weighted_sum ::
  "(string \<times> infra_category) list \<Rightarrow> (string \<rightharpoonup> real) \<Rightarrow> real" where
  "infrastructure_weighted_sum registry distances =
     sum_list (map (weighted_term distances) registry)"

definition infrastructure_pillar_score ::
  "(string \<times> infra_category) list \<Rightarrow> (string \<rightharpoonup> real) \<Rightarrow> real" where
  "infrastructure_pillar_score registry distances =
     min 100 (max 0 (infrastructure_weighted_sum registry distances))"

definition missing_categories ::
  "(string \<times> infra_category) list \<Rightarrow> (string \<rightharpoonup> real) \<Rightarrow> string list" where
  "missing_categories registry distances =
     filter (\<lambda>k. distances k = None) (map fst registry)"

text \<open>A registry of two equally weighted categories, and a unit measured for one only.\<close>

definition two_categories :: "(string \<times> infra_category) list" where
  "two_categories =
     [(''rodovias_federais'', \<lparr> cat_weight = 0.5, cat_min_threshold = 1, cat_max_distance = 50 \<rparr>),
      (''subestacoes'', \<lparr> cat_weight = 0.5, cat_min_threshold = 1, cat_max_distance = 50 \<rparr>)]"

definition roads_only :: "string \<rightharpoonup> real" where
  "roads_only = [''rodovias_federais'' \<mapsto> 0.5]"

text \<open>
  Modelled from the spec: \<open>create_profile\<close> of the WeightProfileManager (section 4.4),
  missing from the sources.  A weight set is valid when it sums to 1.0 within the
  tolerance 1e-3 (bounds included) and holds no negative value; the accepted profile
  stores the weights as given.
\<close>

datatype profile_error = InvalidWeightError

record pillar_weights =
  w_biomass :: real
  w_infrastructure :: real
  w_restriction :: real

record weight_profile =
  profile_name :: string
  top_level_weights :: pillar_weights
  infra_subweights :: "(string \<times> real) list"

definition tolerance :: real where
  "tolerance = 1 / 1000"

definition sums_to_one :: "real list \<Rightarrow> bool" where
  "sums_to_one ws = (\<bar>sum_list ws - 1\<bar> \<le> tolerance)"

definition has_negative :: "real list \<Rightarrow> bool" where
  "has_negative ws = list_ex (\<lambda>w. w < 0) ws"

definition pillar_list :: "pillar_weights \<Rightarrow> real list" where
  "pillar_list t = [w_biomass t, w_infrastructure t, w_restriction t]"

definition create_profile ::
  "pillar_weights \<Rightarrow> (string \<times> real) list \<Rightarrow> string \<Rightarrow> profile_error + weight_profile" where
  "create_profile top_weights sub_weights name =
     (if \<not> sums_to_one (pillar_list top_weights) \<or> has_negative (pillar_list top_weights)
         \<or> \<not> sums_to_one (map snd sub_weights) \<or> has_negative (map snd sub_weights)
      then Inl InvalidWeightError
      else Inr \<lparr> profile_name = name, top_level_weights = top_weights,
                 infra_subweights = sub_weights \<rparr>)"

text \<open>The weights hard-coded in \<open>calculateMCDAScores\<close>, as a top-level weight set.\<close>

definition mcda_weights :: pillar_weights where
  "mcda_weights = \<lparr> w_biomass = 0.35, w_infrastructure = 0.49, w_restriction = 0.16 \<rparr>"

text \<open>
  Modelled from the spec: the DataCompletenessTracker of section 4.5, missing from the
  sources (only its required-field lists are in the methodology document).  A pillar's
  confidence is the share of its required fields that are populated; the overall
  confidence is the smallest of the three.
\<close>

definition pillar_confidence :: "string list \<Rightarrow> string list \<Rightarrow> real" where
  "pillar_confidence required populated =
     real (length (filter (\<lambda>f. f \<in> set populated) required)) / real (length required)"

definition overall_confidence :: "real \<Rightarrow> real \<Rightarrow> real \<Rightarrow> real" where
  "overall_confidence biomass_conf infrastructure_conf restriction_conf =
     min biomass_conf (min infrastructure_conf restriction_conf)"

definition reported_confidence :: "string list \<Rightarrow> real" where
  "reported_confidence populated =
     overall_confidence (pillar_confidence biomass_required_fields populated)
                        (pillar_confidence infrastructure_required_fields populated)
                        (pillar_confidence restriction_required_fields populated)"

text \<open>A manifest with two of the four biomass fields and every other field.\<close>

definition half_biomass_manifest :: "string list" where
  "half_biomass_manifest =
     [''agricultural_area_by_crop'', ''livestock_populations'']
     @ infrastructure_required_fields @ restriction_required_fields"

text \<open>
  Modelled from the spec: the RestrictionScorer of section 4.3, which the master script
  announces and leaves as a placeholder.  The score starts at 100 and loses
  severity \<times> importance for every category that is present, with a floor at 0.
\<close>

record overlap =
  present :: bool
  severity :: real

definition default_importance :: "string \<Rightarrow> real" where
  "default_importance k = 1"

definition restriction_penalty :: "(string \<Rightarrow> real) \<Rightarrow> (string \<times> overlap) list \<Rightarrow> real" where
  "restriction_penalty importance overlaps =
     sum_list (map (\<lambda>ko. if present (snd ko) then severity (snd ko) * importance (fst ko) else 0)
                   overlaps)"

definition restriction_score_spec :: "(string \<Rightarrow> real) \<Rightarrow> (string \<times> overlap) list \<Rightarrow> real" where
  "restriction_score_spec importance overlaps =
     max 0 (100 - restriction_penalty importance overlaps)"

text \<open>The overlap table of a unit that touches no restricted area.\<close>

definition no_overlaps :: "(string \<times> overlap) list" where
  "no_overlaps = map (\<lambda>kr. (fst kr, \<lparr> present = False, severity = snd kr \<rparr>)) restrictions"


text \<open>Sample inputs: a unit with 10 ha of class 39 only, and an extraction run in which
  the query for the transport pipelines raises while every other layer is 2 km away.\<close>

definition rotation_unit :: "nat \<Rightarrow> real" where
  "rotation_unit c = (if c = 39 then 10 else 0)"

definition pipeline_query_raises :: "string \<Rightarrow> infra_query" where
  "pipeline_query_raises k = (if k = ''gasodutos'' then Query_raised else Nearest_metres 2000)"

section \<open>Biomass potential: the loop and its totals\<close>

lemmas crop_defs = pasture_def sugarcane_def soy_def corn_def rice_def coffee_def citrus_def

lemmas run_defs = result_get_def calculateBiomassInBuffer_CORRECTED_def crops_def crop_defs
  forEach_callback_def Let_def

lemma callback_adds_methane:
  assumes "forEach_callback areaOf sfx k c st = Inr st'"
  shows "totalMethaneM3 st' = totalMethaneM3 st + class_methane areaOf (k, c)"
  using assms
  by (auto simp: forEach_callback_def yield_ton_ha_def class_methane_def Let_def
           split: option.splits if_splits)

lemma forEach_crops_methane:
  "forEach_crops areaOf sfx reg st = Inr st' \<Longrightarrow>
     totalMethaneM3 st' = totalMethaneM3 st + sum_list (map (class_methane areaOf) reg)"
proof (induction reg arbitrary: st)
  case Nil
  then show ?case by simp
next
  case (Cons kc reg)
  obtain k c where kc: "kc = (k, c)" by (cases kc)
  from Cons.prems kc obtain st1 where
    s1: "forEach_callback areaOf sfx k c st = Inr st1" and
    s2: "forEach_crops areaOf sfx reg st1 = Inr st'"
    by (auto split: sum.splits)
  from callback_adds_methane[OF s1] Cons.IH[OF s2] kc show ?case by simp
qed

lemma totals_of_any_registry:
  assumes "calculateBiomassInBuffer_CORRECTED registry areaOf sfx = Inr res"
  shows "res (''total_methane_potential'' @ sfx) = Some (sum_list (map (class_methane areaOf) registry))"
    and "res (''biomass_score'' @ sfx) = Some (sum_list (map (class_methane areaOf) registry) / 1000)"
  using assms forEach_crops_methane[of areaOf sfx registry
      "\<lparr> biomassResults = Map.empty, totalBiomassM3 = 0, totalMethaneM3 = 0 \<rparr>"]
  by (auto simp: calculateBiomassInBuffer_CORRECTED_def split: sum.splits)

lemma crops_run_returns: "\<exists>res. calculateBiomassInBuffer_CORRECTED crops areaOf sfx = Inr res"
  by (simp add: calculateBiomassInBuffer_CORRECTED_def crops_def crop_defs forEach_callback_def Let_def)

lemma crops_total_methane:
  "result_get (calculateBiomassInBuffer_CORRECTED crops areaOf sfx) (''total_methane_potential'' @ sfx)
     = Some (sum_list (map (class_methane areaOf) crops))"
proof -
  from crops_run_returns obtain res
    where r: "calculateBiomassInBuffer_CORRECTED crops areaOf sfx = Inr res" by blast
  from totals_of_any_registry(1)[OF r] r show ?thesis by (simp add: result_get_def)
qed

lemma crops_biomass_score:
  "result_get (calculateBiomassInBuffer_CORRECTED crops areaOf sfx) (''biomass_score'' @ sfx)
     = Some (sum_list (map (class_methane areaOf) crops) / 1000)"
proof -
  from crops_run_returns obtain res
    where r: "calculateBiomassInBuffer_CORRECTED crops areaOf sfx = Inr res" by blast
  from totals_of_any_registry(2)[OF r] r show ?thesis by (simp add: result_get_def)
qed

lemma crops_class_methane:
  "\<forall>kc \<in> set crops.
     result_get (calculateBiomassInBuffer_CORRECTED crops areaOf sfx) (fst kc @ ''_methane_m3'' @ sfx)
       = Some (class_methane areaOf kc)"
  by (simp add: run_defs class_methane_def yield_ton_ha_def)

lemma crops_yield_defined: "\<forall>kc \<in> set crops. yield_ton_ha (fst kc) (snd kc) \<noteq> None"
  by (simp add: crops_def crop_defs yield_ton_ha_def del: not_None_eq)

lemma crops_methane_explicit:
  "sum_list (map (class_methane areaOf) crops) =
     areaOf 15 * (2.5 * 10 * 365 / 1000) * 200 * 1.0 * 0.60
   + areaOf 20 * 70.23 * 94 * 0.75 * 0.55
   + areaOf 39 * 2.84 * 215 * 0.4 * 0.50
   + areaOf 39 * 7.85 * 225 * 0.5 * 0.52
   + areaOf 40 * 7.11 * 220 * 0.8 * 0.55
   + areaOf 46 * 10.43 * 310 * 0.4 * 0.62
   + areaOf 47 * 99.00 * 20.90 * 0.6 * 0.58"
  by (simp add: crops_def crop_defs class_methane_def yield_ton_ha_def)

lemma crops_methane_nonneg:
  "(\<forall>c. 0 \<le> areaOf c) \<Longrightarrow> 0 \<le> sum_list (map (class_methane areaOf) crops)"
  by (simp add: crops_def crop_defs class_methane_def yield_ton_ha_def)

lemma crops_biogas_explicit:
  "result_get (calculateBiomassInBuffer_CORRECTED crops areaOf sfx) (''total_biomass_potential'' @ sfx)
     = Some (areaOf 15 * (2.5 * 10 * 365 / 1000) * 200 * 1.0
           + areaOf 20 * 70.23 * 94 * 0.75
           + areaOf 39 * 2.84 * 215 * 0.4
           + areaOf 39 * 7.85 * 225 * 0.5
           + areaOf 40 * 7.11 * 220 * 0.8
           + areaOf 46 * 10.43 * 310 * 0.4
           + areaOf 47 * 99.00 * 20.90 * 0.6)"
  by (simp add: run_defs)

lemma class_39_areas:
  "result_get (calculateBiomassInBuffer_CORRECTED crops areaOf sfx) (''soy_ha'' @ sfx) = Some (areaOf 39)"
  "result_get (calculateBiomassInBuffer_CORRECTED crops areaOf sfx) (''corn_ha'' @ sfx) = Some (areaOf 39)"
  by (simp_all add: run_defs)

text \<open>
  Claim C2.  For every entry of the residue-class registry the exported methane
  potential is area \<times> productivity \<times> biogas factor \<times> seasonal factor \<times>
  methane fraction, where the productivity is the coefficient the entry carries (manure
  tonnage per hectare for pasture); the exported total methane potential is the sum of
  these products over the registry; and 100 ha of sugarcane give
  100 \<times> 70.23 \<times> 94 \<times> 0.75 \<times> 0.55 = 272316.825 cubic metres, within 300 of the
  rounded 272600.
\<close>
theorem methane_potential_chain:
  "(\<forall>kc \<in> set crops. \<exists>p. yield_ton_ha (fst kc) (snd kc) = Some p \<and>
      result_get (calculateBiomassInBuffer_CORRECTED crops areaOf sfx) (fst kc @ ''_methane_m3'' @ sfx)
        = Some (areaOf (class_code (snd kc)) * p * biogas_factor_nm3_ton (snd kc)
                  * seasonal_factor (snd kc) * methane_content (snd kc)))
   \<and> result_get (calculateBiomassInBuffer_CORRECTED crops areaOf sfx) (''total_methane_potential'' @ sfx)
        = Some (sum_list (map (class_methane areaOf) crops))
   \<and> result_get (calculateBiomassInBuffer_CORRECTED crops cane_unit sfx) (''sugarcane_methane_m3'' @ sfx)
        = Some (100 * 70.23 * 94 * 0.75 * 0.55)
   \<and> (100 * 70.23 * 94 * 0.75 * 0.55 :: real) = 272316.825
   \<and> \<bar>100 * 70.23 * 94 * 0.75 * 0.55 - 272600\<bar> < (300 :: real)"
proof (intro conjI ballI)
  fix kc assume kc: "kc \<in> set crops"
  from crops_yield_defined kc obtain p where p: "yield_ton_ha (fst kc) (snd kc) = Some p"
    by blast
  from crops_class_methane kc
  have "result_get (calculateBiomassInBuffer_CORRECTED crops areaOf sfx) (fst kc @ ''_methane_m3'' @ sfx)
          = Some (class_methane areaOf kc)"
    by blast
  with p show "\<exists>p. yield_ton_ha (fst kc) (snd kc) = Some p \<and>
      result_get (calculateBiomassInBuffer_CORRECTED crops areaOf sfx) (fst kc @ ''_methane_m3'' @ sfx)
        = Some (areaOf (class_code (snd kc)) * p * biogas_factor_nm3_ton (snd kc)
                  * seasonal_factor (snd kc) * methane_content (snd kc))"
    by (simp add: class_methane_def)
next
  show "result_get (calculateBiomassInBuffer_CORRECTED crops areaOf sfx) (''total_methane_potential'' @ sfx)
        = Some (sum_list (map (class_methane areaOf) crops))"
    by (rule crops_total_methane)
next
  show "result_get (calculateBiomassInBuffer_CORRECTED crops cane_unit sfx) (''sugarcane_methane_m3'' @ sfx)
        = Some (100 * 70.23 * 94 * 0.75 * 0.55)"
    using crops_class_methane[of cane_unit sfx]
    by (simp add: crops_def class_methane_def yield_ton_ha_def sugarcane_def cane_unit_def)
qed simp_all

theorem methane_potential_chain_witness:
  "(''sugarcane'', sugarcane) \<in> set crops
   \<and> result_get (calculateBiomassInBuffer_CORRECTED crops half_cane_unit ''_30km'') ''sugarcane_methane_m3_30km''
        = Some 136158.4125
   \<and> result_get (calculateBiomassInBuffer_CORRECTED crops half_cane_unit ''_30km'') ''total_methane_potential_30km''
        = Some 136158.4125"
proof -
  have m: "(''sugarcane'', sugarcane) \<in> set crops" by (simp add: crops_def)
  note t = methane_potential_chain[of half_cane_unit "''_30km''"]
  from t m obtain p where
    p: "yield_ton_ha ''sugarcane'' sugarcane = Some p" and
    r: "result_get (calculateBiomassInBuffer_CORRECTED crops half_cane_unit ''_30km'')
          (''sugarcane'' @ ''_methane_m3'' @ ''_30km'')
        = Some (half_cane_unit (class_code sugarcane) * p * biogas_factor_nm3_ton sugarcane
                  * seasonal_factor sugarcane * methane_content sugarcane)"
    by fastforce
  from p have "p = 70.23" by (simp add: yield_ton_ha_def sugarcane_def)
  with r have a: "result_get (calculateBiomassInBuffer_CORRECTED crops half_cane_unit ''_30km'') ''sugarcane_methane_m3_30km''
        = Some 136158.4125"
    by (simp add: sugarcane_def half_cane_unit_def)
  from t have "result_get (calculateBiomassInBuffer_CORRECTED crops half_cane_unit ''_30km'')
      (''total_methane_potential'' @ ''_30km'') = Some (sum_list (map (class_methane half_cane_unit) crops))"
    by blast
  then have b: "result_get (calculateBiomassInBuffer_CORRECTED crops half_cane_unit ''_30km'') ''total_methane_potential_30km''
        = Some 136158.4125"
    by (simp add: crops_methane_explicit half_cane_unit_def)
  from m a b show ?thesis by blast
qed

text \<open>
  Claim C10.  Soy and corn both carry land-use class 39, so both read the whole
  class-39 area of the unit, and that area enters the total biogas and the total
  methane potential twice: once with the soy coefficients and once with the corn
  coefficients.
\<close>
theorem class_39_counted_twice:
  "class_code soy = 39 \<and> class_code corn = 39
   \<and> result_get (calculateBiomassInBuffer_CORRECTED crops areaOf sfx) (''soy_ha'' @ sfx) = Some (areaOf 39)
   \<and> result_get (calculateBiomassInBuffer_CORRECTED crops areaOf sfx) (''corn_ha'' @ sfx) = Some (areaOf 39)
   \<and> result_get (calculateBiomassInBuffer_CORRECTED crops areaOf sfx) (''total_biomass_potential'' @ sfx)
       = Some (areaOf 15 * (2.5 * 10 * 365 / 1000) * 200 * 1.0
             + areaOf 20 * 70.23 * 94 * 0.75
             + areaOf 39 * 2.84 * 215 * 0.4
             + areaOf 39 * 7.85 * 225 * 0.5
             + areaOf 40 * 7.11 * 220 * 0.8
             + areaOf 46 * 10.43 * 310 * 0.4
             + areaOf 47 * 99.00 * 20.90 * 0.6)
   \<and> result_get (calculateBiomassInBuffer_CORRECTED crops areaOf sfx) (''total_methane_potential'' @ sfx)
       = Some (areaOf 15 * (2.5 * 10 * 365 / 1000) * 200 * 1.0 * 0.60
             + areaOf 20 * 70.23 * 94 * 0.75 * 0.55
             + areaOf 39 * 2.84 * 215 * 0.4 * 0.50
             + areaOf 39 * 7.85 * 225 * 0.5 * 0.52
             + areaOf 40 * 7.11 * 220 * 0.8 * 0.55
             + areaOf 46 * 10.43 * 310 * 0.4 * 0.62
             + areaOf 47 * 99.00 * 20.90 * 0.6 * 0.58)"
proof (intro conjI)
  show "class_code soy = 39" by (simp add: soy_def)
  show "class_code corn = 39" by (simp add: corn_def)
  show "result_get (calculateBiomassInBuffer_CORRECTED crops areaOf sfx) (''soy_ha'' @ sfx) = Some (areaOf 39)"
    by (rule class_39_areas)
  show "result_get (calculateBiomassInBuffer_CORRECTED crops areaOf sfx) (''corn_ha'' @ sfx) = Some (areaOf 39)"
    by (rule class_39_areas)
  show "result_get (calculateBiomassInBuffer_CORRECTED crops areaOf sfx) (''total_biomass_potential'' @ sfx)
       = Some (areaOf 15 * (2.5 * 10 * 365 / 1000) * 200 * 1.0
             + areaOf 20 * 70.23 * 94 * 0.75
             + areaOf 39 * 2.84 * 215 * 0.4
             + areaOf 39 * 7.85 * 225 * 0.5
             + areaOf 40 * 7.11 * 220 * 0.8
             + areaOf 46 * 10.43 * 310 * 0.4
             + areaOf 47 * 99.00 * 20.90 * 0.6)"
    by (rule crops_biogas_explicit)
  show "result_get (calculateBiomassInBuffer_CORRECTED crops areaOf sfx) (''total_methane_potential'' @ sfx)
       = Some (areaOf 15 * (2.5 * 10 * 365 / 1000) * 200 * 1.0 * 0.60
             + areaOf 20 * 70.23 * 94 * 0.75 * 0.55
             + areaOf 39 * 2.84 * 215 * 0.4 * 0.50
             + areaOf 39 * 7.85 * 225 * 0.5 * 0.52
             + areaOf 40 * 7.11 * 220 * 0.8 * 0.55
             + areaOf 46 * 10.43 * 310 * 0.4 * 0.62
             + areaOf 47 * 99.00 * 20.90 * 0.6 * 0.58)"
    unfolding crops_total_methane crops_methane_explicit by (rule refl)
qed

theorem class_39_counted_twice_witness:
  "result_get (calculateBiomassInBuffer_CORRECTED crops rotation_unit ''_10km'') ''soy_ha_10km'' = Some 10
   \<and> result_get (calculateBiomassInBuffer_CORRECTED crops rotation_unit ''_10km'') ''corn_ha_10km'' = Some 10
   \<and> result_get (calculateBiomassInBuffer_CORRECTED crops rotation_unit ''_10km'') ''total_biomass_potential_10km''
       = Some (10 * 2.84 * 215 * 0.4 + 10 * 7.85 * 225 * 0.5)
   \<and> result_get (calculateBiomassInBuffer_CORRECTED crops rotation_unit ''_10km'') ''total_methane_potential_10km''
       = Some (10 * 2.84 * 215 * 0.4 * 0.50 + 10 * 7.85 * 225 * 0.5 * 0.52)"
  using class_39_counted_twice[of rotation_unit "''_10km''"]
  by (simp add: rotation_unit_def)


section \<open>Biomass score\<close>

lemma cane_unit_score:
  "result_get (calculateBiomassInBuffer_CORRECTED crops cane_unit ''_30km'') ''biomass_score_30km''
     = Some 272.316825"
  using crops_biomass_score[of cane_unit "''_30km''"]
  by (simp add: crops_methane_explicit cane_unit_def)

lemma half_cane_unit_score:
  "result_get (calculateBiomassInBuffer_CORRECTED crops half_cane_unit ''_30km'') ''biomass_score_30km''
     = Some 136.1584125"
  using crops_biomass_score[of half_cane_unit "''_30km''"]
  by (simp add: crops_methane_explicit half_cane_unit_def)

text \<open>
  Claim C1, as stated, fails.  In a run over two units with 100 ha and 50 ha of
  sugarcane the exported biomass scores are 272.316825 and 136.1584125: the first lies
  outside [0, 100], and neither is the value that scaling against the largest total of
  the run would give (100 and 50).
\<close>
theorem biomass_score_minmax_counterexample:
  "chunk_biomass_scores [cane_unit, half_cane_unit] ''_30km'' = [Some 272.316825, Some 136.1584125]
   \<and> \<not> (272.316825 \<le> (100 :: real))
   \<and> sum_list (map (class_methane cane_unit) crops) = 272316.825
   \<and> sum_list (map (class_methane half_cane_unit) crops) = 136158.4125
   \<and> minmax_biomass_score [272316.825, 136158.4125] 272316.825 = 100
   \<and> minmax_biomass_score [272316.825, 136158.4125] 136158.4125 = 50"
proof (intro conjI)
  show "chunk_biomass_scores [cane_unit, half_cane_unit] ''_30km'' = [Some 272.316825, Some 136.1584125]"
    using cane_unit_score half_cane_unit_score by (simp add: chunk_biomass_scores_def)
  show "sum_list (map (class_methane cane_unit) crops) = 272316.825"
    by (simp add: crops_methane_explicit cane_unit_def)
  show "sum_list (map (class_methane half_cane_unit) crops) = 136158.4125"
    by (simp add: crops_methane_explicit half_cane_unit_def)
qed (simp_all add: minmax_biomass_score_def)

text \<open>
  Claim C1, amended.  The exported biomass score of a unit is its total methane
  potential divided by the fixed constant 1000.  It is at least 0 when no class area is
  negative, and it is the same whatever other units are scored in the same run.
\<close>
theorem biomass_score_fixed_divisor:
  "result_get (calculateBiomassInBuffer_CORRECTED crops areaOf sfx) (''biomass_score'' @ sfx)
     = Some (sum_list (map (class_methane areaOf) crops) / 1000)
   \<and> ((\<forall>c. 0 \<le> areaOf c) \<longrightarrow> 0 \<le> sum_list (map (class_methane areaOf) crops) / 1000)
   \<and> (i < length units \<longrightarrow>
        chunk_biomass_scores units sfx ! i = hd (chunk_biomass_scores [units ! i] sfx))"
proof (intro conjI impI)
  show "result_get (calculateBiomassInBuffer_CORRECTED crops areaOf sfx) (''biomass_score'' @ sfx)
     = Some (sum_list (map (class_methane areaOf) crops) / 1000)"
    by (rule crops_biomass_score)
next
  assume "\<forall>c. 0 \<le> areaOf c"
  then show "0 \<le> sum_list (map (class_methane areaOf) crops) / 1000"
    using crops_methane_nonneg[of areaOf] by simp
next
  assume "i < length units"
  then show "chunk_biomass_scores units sfx ! i = hd (chunk_biomass_scores [units ! i] sfx)"
    by (simp add: chunk_biomass_scores_def)
qed

theorem biomass_score_fixed_divisor_witness:
  "(\<forall>c. 0 \<le> cane_unit c) \<and> (1::nat) < length [half_cane_unit, cane_unit]
   \<and> result_get (calculateBiomassInBuffer_CORRECTED crops cane_unit ''_30km'') ''biomass_score_30km''
        = Some 272.316825
   \<and> 0 \<le> sum_list (map (class_methane cane_unit) crops) / 1000
   \<and> chunk_biomass_scores [half_cane_unit, cane_unit] ''_30km'' ! 1
        = hd (chunk_biomass_scores [cane_unit] ''_30km'')"
proof -
  have h1: "\<forall>c. 0 \<le> cane_unit c" by (simp add: cane_unit_def)
  have h2: "(1::nat) < length [half_cane_unit, cane_unit]" by simp
  note t = biomass_score_fixed_divisor[of cane_unit "''_30km''" 1 "[half_cane_unit, cane_unit]"]
  from t have a: "result_get (calculateBiomassInBuffer_CORRECTED crops cane_unit ''_30km'') ''biomass_score_30km''
        = Some 272.316825"
    by (simp add: crops_methane_explicit cane_unit_def)
  from t h1 have b: "0 \<le> sum_list (map (class_methane cane_unit) crops) / 1000" by blast
  from t h2 have c: "chunk_biomass_scores [half_cane_unit, cane_unit] ''_30km'' ! 1
        = hd (chunk_biomass_scores [cane_unit] ''_30km'')" by simp
  from h1 h2 a b c show ?thesis by blast
qed

section \<open>Infrastructure weights\<close>

text \<open>
  Claim C3 says that the weights of the infrastructure registry sum to 1.0.  The
  registry of the master script sums to 1.08: the seven original weights sum to 1, and
  the later entry \<open>gasoduto_distribuicao\<close> added 0.08 on top of them.
\<close>
theorem infrastructure_weights_sum:
  "sum_list (map snd infrastructure) = 1.08
   \<and> sum_list (map snd infrastructure) \<noteq> 1
   \<and> sum_list (map snd (filter (\<lambda>kw. fst kw \<noteq> ''gasoduto_distribuicao'') infrastructure)) = 1"
  by (simp add: infrastructure_def)

section \<open>Weight profiles\<close>

lemma has_negative_iff: "has_negative ws = (\<exists>w \<in> set ws. w < 0)"
  by (simp add: has_negative_def list_ex_iff)

text \<open>
  Claim C4.  Constructing a weight profile fails with \<open>InvalidWeightError\<close> exactly
  when the top-level weights or the infrastructure sub-weights miss the sum 1.0 by more
  than 1e-3 or hold a negative value; every other construction returns the profile
  with the weights as they were given, neither rescaled nor clamped.
\<close>
theorem create_profile_fails_iff:
  "(create_profile t s n = Inl InvalidWeightError)
     = (\<not> \<bar>w_biomass t + w_infrastructure t + w_restriction t - 1\<bar> \<le> 1 / 1000
        \<or> w_biomass t < 0 \<or> w_infrastructure t < 0 \<or> w_restriction t < 0
        \<or> \<not> \<bar>sum_list (map snd s) - 1\<bar> \<le> 1 / 1000
        \<or> (\<exists>w \<in> set (map snd s). w < 0))
   \<and> (create_profile t s n \<noteq> Inl InvalidWeightError \<longrightarrow>
        create_profile t s n
          = Inr \<lparr> profile_name = n, top_level_weights = t, infra_subweights = s \<rparr>)"
proof -
  have top_sum: "sum_list (pillar_list t) = w_biomass t + w_infrastructure t + w_restriction t"
    by (simp add: pillar_list_def)
  have top_neg: "has_negative (pillar_list t)
                   = (w_biomass t < 0 \<or> w_infrastructure t < 0 \<or> w_restriction t < 0)"
    by (simp add: has_negative_iff pillar_list_def)
  have sub_neg: "has_negative (map snd s) = (\<exists>w \<in> set (map snd s). w < 0)"
    by (rule has_negative_iff)
  show ?thesis
    unfolding create_profile_def sums_to_one_def tolerance_def top_sum top_neg sub_neg
    by auto
qed

theorem create_profile_fails_iff_witness:
  "create_profile mcda_weights infrastructure ''master'' = Inl InvalidWeightError
   \<and> create_profile mcda_weights [(''roads'', 0.5005), (''grid'', 0.5)] ''custom''
       = Inr \<lparr> profile_name = ''custom'', top_level_weights = mcda_weights,
                infra_subweights = [(''roads'', 0.5005), (''grid'', 0.5)] \<rparr>
   \<and> create_profile (mcda_weights\<lparr> w_biomass := - 0.35, w_infrastructure := 1.19 \<rparr>)
        [(''roads'', 0.5), (''grid'', 0.5)] ''negative'' = Inl InvalidWeightError"
proof -
  have a: "create_profile mcda_weights infrastructure ''master'' = Inl InvalidWeightError"
    using create_profile_fails_iff[of mcda_weights infrastructure "''master''"]
    by (simp add: mcda_weights_def infrastructure_def)
  have "create_profile mcda_weights [(''roads'', 0.5005), (''grid'', 0.5)] ''custom''
          \<noteq> Inl InvalidWeightError"
    using create_profile_fails_iff[of mcda_weights "[(''roads'', 0.5005), (''grid'', 0.5)]" "''custom''"]
    by (simp add: mcda_weights_def)
  then have b: "create_profile mcda_weights [(''roads'', 0.5005), (''grid'', 0.5)] ''custom''
       = Inr \<lparr> profile_name = ''custom'', top_level_weights = mcda_weights,
                infra_subweights = [(''roads'', 0.5005), (''grid'', 0.5)] \<rparr>"
    using create_profile_fails_iff[of mcda_weights "[(''roads'', 0.5005), (''grid'', 0.5)]" "''custom''"]
    by blast
  have c: "create_profile (mcda_weights\<lparr> w_biomass := - 0.35, w_infrastructure := 1.19 \<rparr>)
        [(''roads'', 0.5), (''grid'', 0.5)] ''negative'' = Inl InvalidWeightError"
    using create_profile_fails_iff[of "mcda_weights\<lparr> w_biomass := - 0.35, w_infrastructure := 1.19 \<rparr>"
        "[(''roads'', 0.5), (''grid'', 0.5)]" "''negative''"]
    by (simp add: mcda_weights_def)
  from a b c show ?thesis by blast
qed

section \<open>Distance decay\<close>

text \<open>
  Claim C5, as stated, fails.  The source has no per-category cutoff: a category whose
  \<open>min_threshold\<close> is 5 km and whose \<open>max_distance\<close> is 50 km scores 94 at 3 km,
  where the rule of the claim gives 100.  And a distance exactly at \<open>max_distance\<close>
  does not score 0 when the maximum distance is the cutoff itself: at 1 km with a
  maximum distance of 1 km the score is 100.
\<close>
theorem distance_score_cutoff_counterexample:
  "calculate_distance_score 3 50 = 94
   \<and> distance_score_spec 5 50 3 = 100
   \<and> calculate_distance_score 3 50 \<noteq> distance_score_spec 5 50 3
   \<and> calculate_distance_score 1 1 = 100
   \<and> calculate_distance_score 1 1 \<noteq> 0"
  by (simp add: calculate_distance_score_def distance_score_spec_def)

text \<open>
  Claim C5, amended.  The cutoff is the constant 1 km for every category, and the cases
  are taken in order: the distance score is 100 when the distance is at most 1 km, 0
  when it is above 1 km and at least \<open>max_distance\<close>, and
  100 \<times> (1 - distance / max_distance) otherwise; that is the rule of the
  specification with \<open>min_threshold\<close> = 1.  A distance exactly at 1 km scores 100,
  and a distance exactly at \<open>max_distance\<close> scores 0 when \<open>max_distance\<close> is above
  1 km.
\<close>
theorem distance_score_piecewise:
  "calculate_distance_score d max_distance = distance_score_spec 1 max_distance d
   \<and> (d \<le> 1 \<longrightarrow> calculate_distance_score d max_distance = 100)
   \<and> (1 < d \<longrightarrow> max_distance \<le> d \<longrightarrow> calculate_distance_score d max_distance = 0)
   \<and> (1 < d \<longrightarrow> d < max_distance \<longrightarrow>
        calculate_distance_score d max_distance = 100 * (1 - d / max_distance))
   \<and> calculate_distance_score 1 max_distance = 100
   \<and> (1 < max_distance \<longrightarrow> calculate_distance_score max_distance max_distance = 0)"
proof -
  have lin: "max 0 (100 - (d / max_distance) * 100) = 100 * (1 - d / max_distance)"
    if "1 < d" "d < max_distance"
  proof -
    from that have pos: "0 < max_distance" by simp
    with that have "(d / max_distance) * 100 \<le> 100" by (simp add: field_simps)
    then have "max 0 (100 - (d / max_distance) * 100) = 100 - (d / max_distance) * 100"
      by simp
    also have "\<dots> = 100 * (1 - d / max_distance)" by (simp add: algebra_simps)
    finally show ?thesis .
  qed
  then show ?thesis
    by (auto simp: calculate_distance_score_def distance_score_spec_def)
qed

theorem distance_score_piecewise_witness:
  "(1::real) \<le> 1 \<and> (1::real) < 50 \<and> (1::real) < 25 \<and> (25::real) < 50 \<and> (50::real) \<le> 50
   \<and> calculate_distance_score 1 50 = 100
   \<and> calculate_distance_score 50 50 = 0
   \<and> calculate_distance_score 25 50 = 50"
  using distance_score_piecewise[of 1 50] distance_score_piecewise[of 50 50]
        distance_score_piecewise[of 25 50]
  by simp

section \<open>Restriction placeholder\<close>

text \<open>
  Claim C6 says that the restriction score is 100 minus the penalties of the categories
  present, with a floor at 0.  The master script writes the constant 0 for every unit,
  both as \<open>total_restriction_score\<close> and as \<open>restriction_score\<close>, where the rule
  of the claim gives 100 for a unit that touches no restricted area.
\<close>
theorem restriction_placeholder_scores_zero:
  "map (\<lambda>f. f ''total_restriction_score'') (calculateRestrictionScores [polygon]) = [Some (Num 0)]
   \<and> calculateMCDAScores polygon ''restriction_score'' = Some (Num 0)
   \<and> restriction_score_spec default_importance no_overlaps = 100"
  by (simp add: calculateRestrictionScores_def calculateMCDAScores_def restriction_score_spec_def
        restriction_penalty_def no_overlaps_def restrictions_def)

section \<open>Confidence\<close>

text \<open>
  Claim C7.  The overall confidence is the minimum of the three pillar confidences, not
  their average: with a biomass confidence of 0.5 and the other two at 1.0 it is 0.5,
  as it is for a manifest that holds two of the four required biomass fields and every
  required field of the other two pillars.
\<close>
theorem overall_confidence_is_minimum:
  "overall_confidence b i r = Min {b, i, r}
   \<and> overall_confidence b i r \<le> b \<and> overall_confidence b i r \<le> i \<and> overall_confidence b i r \<le> r
   \<and> overall_confidence 0.5 1 1 = 0.5
   \<and> overall_confidence 0.5 1 1 \<noteq> (0.5 + 1 + 1) / 3
   \<and> pillar_confidence biomass_required_fields half_biomass_manifest = 0.5
   \<and> pillar_confidence infrastructure_required_fields half_biomass_manifest = 1
   \<and> pillar_confidence restriction_required_fields half_biomass_manifest = 1
   \<and> reported_confidence half_biomass_manifest = 0.5"
proof -
  have p1: "pillar_confidence biomass_required_fields half_biomass_manifest = 0.5"
    by (simp add: pillar_confidence_def biomass_required_fields_def half_biomass_manifest_def
          infrastructure_required_fields_def restriction_required_fields_def)
  have p2: "pillar_confidence infrastructure_required_fields half_biomass_manifest = 1"
    by (simp add: pillar_confidence_def half_biomass_manifest_def
          infrastructure_required_fields_def restriction_required_fields_def)
  have p3: "pillar_confidence restriction_required_fields half_biomass_manifest = 1"
    by (simp add: pillar_confidence_def half_biomass_manifest_def
          infrastructure_required_fields_def restriction_required_fields_def)
  have m: "overall_confidence b i r = Min {b, i, r}"
    by (simp add: overall_confidence_def min.assoc)
  have r: "reported_confidence half_biomass_manifest = 0.5"
    unfolding reported_confidence_def p1 p2 p3 by (simp add: overall_confidence_def)
  have le: "overall_confidence b i r \<le> b" "overall_confidence b i r \<le> i"
    "overall_confidence b i r \<le> r"
    by (simp_all add: overall_confidence_def)
  have ex: "overall_confidence 0.5 1 1 = 0.5" "overall_confidence 0.5 1 1 \<noteq> (0.5 + 1 + 1) / 3"
    by (simp_all add: overall_confidence_def)
  from p1 p2 p3 m r le ex show ?thesis by blast
qed

theorem overall_confidence_is_minimum_witness:
  "overall_confidence 0.75 0.25 1 = 0.25 \<and> overall_confidence 0.75 0.25 1 \<le> 0.75"
  using overall_confidence_is_minimum[of "0.75" "0.25" 1] by simp

section \<open>Recorded distances\<close>

lemma forEach_infra_other:
  "key \<notin> (\<lambda>k. ''dist_'' @ k @ ''_km'') ` set keys \<Longrightarrow> forEach_infra query keys m key = m key"
  by (induction keys arbitrary: m) auto

lemma forEach_infra_lookup:
  "k \<in> set keys \<Longrightarrow>
     forEach_infra query keys m (''dist_'' @ k @ ''_km'') = Some (recorded_km (query k))"
proof (induction keys arbitrary: m)
  case Nil
  then show ?case by simp
next
  case (Cons a keys)
  show ?case
  proof (cases "k \<in> set keys")
    case True
    have "forEach_infra query (a # keys) m (''dist_'' @ k @ ''_km'')
            = forEach_infra query keys
                (m(''dist_'' @ a @ ''_km'' \<mapsto> recorded_km (query a))) (''dist_'' @ k @ ''_km'')"
      by (simp only: forEach_infra.simps)
    also have "\<dots> = Some (recorded_km (query k))" by (rule Cons.IH[OF True])
    finally show ?thesis .
  next
    case False
    with Cons.prems have ka: "k = a" by simp
    from False have "''dist_'' @ k @ ''_km'' \<notin> (\<lambda>k. ''dist_'' @ k @ ''_km'') ` set keys"
      by auto
    then have "forEach_infra query keys
                (m(''dist_'' @ a @ ''_km'' \<mapsto> recorded_km (query a))) (''dist_'' @ k @ ''_km'')
             = (m(''dist_'' @ a @ ''_km'' \<mapsto> recorded_km (query a))) (''dist_'' @ k @ ''_km'')"
      by (rule forEach_infra_other)
    with ka show ?thesis by simp
  qed
qed

text \<open>
  Claim C9.  When the distance query of a category raises, the extraction records
  -1 km under the category's key, and the distance rule gives that value the maximal
  score 100: the source's rule for every maximum distance, the rule of the
  specification for every cutoff of at least -1.
\<close>
theorem failed_query_scores_maximal:
  "recorded_km Query_raised = - 1
   \<and> (infraKey \<in> set keys \<longrightarrow> query infraKey = Query_raised \<longrightarrow>
        calculateInfrastructureDistances keys query (''dist_'' @ infraKey @ ''_km'') = Some (- 1))
   \<and> calculate_distance_score (recorded_km Query_raised) max_distance = 100
   \<and> (- 1 \<le> min_threshold \<longrightarrow>
        distance_score_spec min_threshold max_distance (recorded_km Query_raised) = 100)"
proof (intro conjI impI)
  show "recorded_km Query_raised = - 1" by (simp add: recorded_km_def)
next
  assume "infraKey \<in> set keys" "query infraKey = Query_raised"
  then show "calculateInfrastructureDistances keys query (''dist_'' @ infraKey @ ''_km'') = Some (- 1)"
    unfolding calculateInfrastructureDistances_def
    using forEach_infra_lookup[of infraKey keys query Map.empty]
    by (simp add: recorded_km_def)
next
  show "calculate_distance_score (recorded_km Query_raised) max_distance = 100"
    by (simp add: recorded_km_def calculate_distance_score_def)
next
  assume "- 1 \<le> min_threshold"
  then show "distance_score_spec min_threshold max_distance (recorded_km Query_raised) = 100"
    by (simp add: recorded_km_def distance_score_spec_def)
qed

theorem failed_query_scores_maximal_witness:
  "''gasodutos'' \<in> set infrastructure_extraction
   \<and> pipeline_query_raises ''gasodutos'' = Query_raised
   \<and> - 1 \<le> (1 :: real)
   \<and> calculateInfrastructureDistances infrastructure_extraction pipeline_query_raises
        ''dist_gasodutos_km'' = Some (- 1)
   \<and> calculate_distance_score (- 1) 50 = 100
   \<and> distance_score_spec 1 50 (- 1) = 100"
proof -
  have h1: "''gasodutos'' \<in> set infrastructure_extraction"
    by (simp add: infrastructure_extraction_def)
  have h2: "pipeline_query_raises ''gasodutos'' = Query_raised"
    by (simp add: pipeline_query_raises_def)
  note t = failed_query_scores_maximal[of "''gasodutos''" infrastructure_extraction
              pipeline_query_raises 50 1]
  from t h1 h2 have a: "calculateInfrastructureDistances infrastructure_extraction
      pipeline_query_raises ''dist_gasodutos_km'' = Some (- 1)"
    by simp
  from t have b: "calculate_distance_score (- 1) 50 = 100" by (simp add: recorded_km_def)
  from t have c: "distance_score_spec 1 50 (- 1) = 100" by (simp add: recorded_km_def)
  from h1 h2 a b c show ?thesis by simp
qed

section \<open>Missing distances\<close>

lemma weighted_sum_cong:
  "(\<And>kc. kc \<in> set registry \<Longrightarrow> weighted_term d1 kc = weighted_term d2 kc) \<Longrightarrow>
     infrastructure_weighted_sum registry d1 = infrastructure_weighted_sum registry d2"
  unfolding infrastructure_weighted_sum_def
  by (induction registry) auto

lemma missing_as_out_of_range:
  assumes mem: "(k, c) \<in> set registry"
    and none: "distances k = None"
    and dist: "distinct (map fst registry)"
    and far: "cat_min_threshold c < d" "cat_max_distance c \<le> d"
  shows "infrastructure_weighted_sum registry distances
           = infrastructure_weighted_sum registry (distances(k \<mapsto> d))"
proof (rule weighted_sum_cong)
  fix kc assume kc: "kc \<in> set registry"
  obtain k' c' where eq: "kc = (k', c')" by (cases kc)
  show "weighted_term distances kc = weighted_term (distances(k \<mapsto> d)) kc"
  proof (cases "k' = k")
    case True
    with kc eq mem dist have "c' = c" by (metis eq_key_imp_eq_value)
    with True eq none far show ?thesis
      by (simp add: weighted_term_def category_score_def distance_score_spec_def)
  next
    case False
    with eq show ?thesis by (simp add: weighted_term_def)
  qed
qed

text \<open>
  Claim C8.  A category of the registry without a distance measurement contributes its
  weight times the score 0 to the weighted sum and is listed as missing; the weighted
  sum is the one the unit would get with a measurement beyond the category's maximum
  distance, so the category is not dropped from the average (two equally weighted
  categories, one at 0.5 km and one missing, give 50, not 100).  The extraction's
  sentinel for "no infrastructure within 50 km", 999.999 km, scores 0 as well.
\<close>
theorem missing_distance_scores_zero_at_full_weight:
  "((k, c) \<in> set registry \<longrightarrow> distances k = None \<longrightarrow>
       weighted_term distances (k, c) = cat_weight c * 0
     \<and> k \<in> set (missing_categories registry distances)
     \<and> (distinct (map fst registry) \<longrightarrow> cat_min_threshold c < d \<longrightarrow> cat_max_distance c \<le> d \<longrightarrow>
          infrastructure_weighted_sum registry distances
            = infrastructure_weighted_sum registry (distances(k \<mapsto> d))))
   \<and> infrastructure_weighted_sum two_categories roads_only = 0.5 * 100 + 0.5 * 0
   \<and> infrastructure_pillar_score two_categories roads_only = 50
   \<and> missing_categories two_categories roads_only = [''subestacoes'']
   \<and> recorded_km No_infra_nearby = 999.999
   \<and> (max_distance \<le> 999.999 \<longrightarrow>
        calculate_distance_score (recorded_km No_infra_nearby) max_distance = 0)"
proof (intro conjI impI)
  assume "(k, c) \<in> set registry" "distances k = None"
  then show "weighted_term distances (k, c) = cat_weight c * 0"
    by (simp add: weighted_term_def category_score_def)
next
  assume "(k, c) \<in> set registry" "distances k = None"
  then show "k \<in> set (missing_categories registry distances)"
    by (force simp: missing_categories_def)
next
  assume "(k, c) \<in> set registry" "distances k = None" "distinct (map fst registry)"
    "cat_min_threshold c < d" "cat_max_distance c \<le> d"
  then show "infrastructure_weighted_sum registry distances
            = infrastructure_weighted_sum registry (distances(k \<mapsto> d))"
    by (rule missing_as_out_of_range)
next
  show "infrastructure_weighted_sum two_categories roads_only = 0.5 * 100 + 0.5 * 0"
    by (simp add: infrastructure_weighted_sum_def two_categories_def roads_only_def
          weighted_term_def category_score_def distance_score_spec_def)
next
  show "infrastructure_pillar_score two_categories roads_only = 50"
    by (simp add: infrastructure_pillar_score_def infrastructure_weighted_sum_def
          two_categories_def roads_only_def weighted_term_def category_score_def
          distance_score_spec_def)
next
  show "missing_categories two_categories roads_only = [''subestacoes'']"
    by (simp add: missing_categories_def two_categories_def roads_only_def)
next
  show "recorded_km No_infra_nearby = 999.999" by (simp add: recorded_km_def)
next
  assume "max_distance \<le> 999.999"
  then show "calculate_distance_score (recorded_km No_infra_nearby) max_distance = 0"
    by (simp add: recorded_km_def calculate_distance_score_def)
qed

theorem missing_distance_scores_zero_at_full_weight_witness:
  "(''subestacoes'', \<lparr> cat_weight = 0.5, cat_min_threshold = 1, cat_max_distance = 50 \<rparr>)
      \<in> set two_categories
   \<and> roads_only ''subestacoes'' = None
   \<and> distinct (map fst two_categories)
   \<and> (50 :: real) \<le> 999.999
   \<and> weighted_term roads_only
        (''subestacoes'', \<lparr> cat_weight = 0.5, cat_min_threshold = 1, cat_max_distance = 50 \<rparr>) = 0
   \<and> ''subestacoes'' \<in> set (missing_categories two_categories roads_only)
   \<and> infrastructure_weighted_sum two_categories roads_only
       = infrastructure_weighted_sum two_categories (roads_only(''subestacoes'' \<mapsto> 60))
   \<and> calculate_distance_score (recorded_km No_infra_nearby) 50 = 0"
proof -
  have h1: "(''subestacoes'', \<lparr> cat_weight = 0.5, cat_min_threshold = 1, cat_max_distance = 50 \<rparr>)
      \<in> set two_categories"
    by (simp add: two_categories_def)
  have h2: "roads_only ''subestacoes'' = None" by (simp add: roads_only_def)
  have h3: "distinct (map fst two_categories)" by (simp add: two_categories_def)
  have h4: "(50 :: real) \<le> 999.999" by simp
  note t = missing_distance_scores_zero_at_full_weight[of "''subestacoes''"
      "\<lparr> cat_weight = 0.5, cat_min_threshold = 1, cat_max_distance = 50 \<rparr>"
      two_categories roads_only 60 50]
  from t h1 h2 have a: "weighted_term roads_only
        (''subestacoes'', \<lparr> cat_weight = 0.5, cat_min_threshold = 1, cat_max_distance = 50 \<rparr>) = 0"
    by simp
  from t h1 h2 have b: "''subestacoes'' \<in> set (missing_categories two_categories roads_only)"
    by blast
  from t h1 h2 h3 have c: "infrastructure_weighted_sum two_categories roads_only
       = infrastructure_weighted_sum two_categories (roads_only(''subestacoes'' \<mapsto> 60))"
    by simp
  from t h4 have d: "calculate_distance_score (recorded_km No_infra_nearby) 50 = 0"
    by blast
  from h1 h2 h3 h4 a b c d show ?thesis by blast
qed


end
